theory Spec2Isabelle
  imports Main "HOL-Library.Char_ord" "HOL-Library.List_Lexorder"
begin

section \<open>The stored records (package entities)\<close>

text \<open>
  Every table row is a record with the columns of the Go struct. The relationship
  fields of the structs (\<^verbatim>\<open>Modes\<close>, \<^verbatim>\<open>Substance\<close>, ...) are filled by
  \<^verbatim>\<open>Preload\<close> only and are no columns, so they are left out. Identifiers are the
  strings the code uses; an instant is a natural number.
\<close>

type_synonym time = nat

record Substance =
  Substance_ID :: string
  Substance_Name :: string
  Substance_Kind :: string
  Substance_Essence :: string
  Substance_CreatedAt :: time

record Attribute =
  Attribute_ID :: string
  Attribute_Name :: string
  Attribute_Description :: string
  Attribute_DataType :: string
  Attribute_CreatedAt :: time

record Mode =
  Mode_ID :: string
  Mode_Value :: string
  Mode_CreatedAt :: time
  Mode_SubstanceID :: string
  Mode_AttributeID :: string

record CausalRelation =
  CausalRelation_ID :: string
  CauseType :: string
  FromEntity :: string
  ToEntity :: string
  CausalRelation_CreatedAt :: time

record Potentiality =
  Potentiality_ID :: string
  Potentiality_Name :: string
  Potentiality_Description :: string
  Conditions :: string
  Potentiality_CreatedAt :: time
  Potentiality_SubstanceID :: string

record Actuality =
  Actuality_ID :: string
  Actuality_Description :: string
  ActualizedAt :: time
  Actuality_SubstanceID :: string
  Actuality_PotentialityID :: string

text \<open>
  The constructors of the package take the generated identifier and the current instant
  as arguments: \<^verbatim>\<open>uuid.New().String()\<close> and \<^verbatim>\<open>time.Now()\<close> are inputs of the model.
\<close>

definition NewCausalRelation :: "string \<Rightarrow> string \<Rightarrow> string \<Rightarrow> string \<Rightarrow> time \<Rightarrow> CausalRelation" where
  "NewCausalRelation causeType fromEntity toEntity uuid now =
     \<lparr>CausalRelation_ID = uuid, CauseType = causeType, FromEntity = fromEntity,
      ToEntity = toEntity, CausalRelation_CreatedAt = now\<rparr>"

definition NewPotentiality :: "string \<Rightarrow> string \<Rightarrow> string \<Rightarrow> string \<Rightarrow> string \<Rightarrow> time \<Rightarrow> Potentiality" where
  "NewPotentiality name description conditions substanceID uuid now =
     \<lparr>Potentiality_ID = uuid, Potentiality_Name = name, Potentiality_Description = description,
      Conditions = conditions, Potentiality_CreatedAt = now, Potentiality_SubstanceID = substanceID\<rparr>"

definition NewActuality :: "string \<Rightarrow> string \<Rightarrow> string \<Rightarrow> string \<Rightarrow> time \<Rightarrow> Actuality" where
  "NewActuality description substanceID potentialityID uuid now =
     \<lparr>Actuality_ID = uuid, Actuality_Description = description, ActualizedAt = now,
      Actuality_SubstanceID = substanceID, Actuality_PotentialityID = potentialityID\<rparr>"

section \<open>The store\<close>

text \<open>
  The database is the list of rows of each table, in the order in which the rows were
  inserted. A query that carries no \<^verbatim>\<open>ORDER BY\<close> (\<^verbatim>\<open>Find\<close>) returns its rows in that
  order. The store is taken to be available: a read fails only because no row matches,
  and \<^verbatim>\<open>Create\<close> fails only on a primary key that is already there.
\<close>

record database =
  substances :: "Substance list"
  attributes :: "Attribute list"
  modes :: "Mode list"
  causal_relations :: "CausalRelation list"
  potentialities :: "Potentiality list"
  actualities :: "Actuality list"

text \<open>
  \<^verbatim>\<open>First\<close> adds \<^verbatim>\<open>ORDER BY <primary key> LIMIT 1\<close> to the query: of the rows that
  match it returns the one with the least identifier (the earliest stored one among equal
  identifiers), or the error \<^verbatim>\<open>ErrRecordNotFound\<close>, here \<open>None\<close>. Identifiers are
  compared byte by byte.
\<close>

fun First :: "('r \<Rightarrow> string) \<Rightarrow> 'r list \<Rightarrow> 'r option" where
  "First pk [] = None"
| "First pk (r # rs) =
     (case First pk rs of
        None \<Rightarrow> Some r
      | Some r' \<Rightarrow> if pk r \<le> pk r' then Some r else Some r')"

definition Create_causal_relation :: "CausalRelation \<Rightarrow> database \<Rightarrow> database option" where
  "Create_causal_relation r db =
     (if CausalRelation_ID r \<in> set (map CausalRelation_ID (causal_relations db)) then None
      else Some (db\<lparr>causal_relations := causal_relations db @ [r]\<rparr>))"

definition Create_potentiality :: "Potentiality \<Rightarrow> database \<Rightarrow> database option" where
  "Create_potentiality p db =
     (if Potentiality_ID p \<in> set (map Potentiality_ID (potentialities db)) then None
      else Some (db\<lparr>potentialities := potentialities db @ [p]\<rparr>))"

definition Create_actuality :: "Actuality \<Rightarrow> database \<Rightarrow> database option" where
  "Create_actuality a db =
     (if Actuality_ID a \<in> set (map Actuality_ID (actualities db)) then None
      else Some (db\<lparr>actualities := actualities db @ [a]\<rparr>))"

section \<open>Conditions and the Go runtime they go through\<close>

text \<open>
  The field \<^verbatim>\<open>Value interface{}\<close> of a condition holds whatever the JSON decoder
  produced: a string, or another value (a number, a boolean, nil, a slice, a map), of the
  type \<open>'x\<close>.
\<close>

datatype 'x cvalue = VString string | VOther 'x

record 'x Condition =
  Condition_Type :: string
  Condition_Name :: string
  Condition_Value :: "'x cvalue"

text \<open>
  Three things the engine calls lie outside the repository and are parameters of the
  model: \<^verbatim>\<open>json.Unmarshal\<close> into a \<^verbatim>\<open>[]Condition\<close> (\<open>None\<close> is its error),
  the text \<^verbatim>\<open>fmt.Sprintf("%v", v)\<close> of a value that is no string, and what the
  database does with such a value bound to \<^verbatim>\<open>modes.value = ?\<close>: it rejects the query
  with a message, or compares the column with it.
\<close>

record 'x runtime =
  json_Unmarshal :: "string \<Rightarrow> 'x Condition list option"
  fmt_v :: "'x \<Rightarrow> string"
  sql_param :: "'x \<Rightarrow> string + (string \<Rightarrow> bool)"

fun Sprint :: "'x runtime \<Rightarrow> 'x cvalue \<Rightarrow> string" where
  "Sprint rt (VString s) = s"
| "Sprint rt (VOther x) = fmt_v rt x"

fun value_eq :: "'x runtime \<Rightarrow> 'x cvalue \<Rightarrow> string + (string \<Rightarrow> bool)" where
  "value_eq rt (VString s) = Inr (\<lambda>col. col = s)"
| "value_eq rt (VOther x) = sql_param rt x"

datatype error =
    PotentialityNotFound
  | InvalidConditionsFormat
  | ConditionsNotMet "string list"
  | CreateActualityFailed
  | InvalidCauseType string
  | CreateCausalRelationFailed
  | SubstanceNotFound
  | InvalidConditionsJSONFormat
  | CreatePotentialityFailed

section \<open>The engine (package causality)\<close>

text \<open>
  The rows of \<^verbatim>\<open>modes JOIN attributes ON modes.attribute_id = attributes.id\<close> with
  \<^verbatim>\<open>modes.substance_id = ? AND attributes.name = ?\<close>, one mode per joined pair.
\<close>

definition modes_of :: "database \<Rightarrow> string \<Rightarrow> string \<Rightarrow> Mode list" where
  "modes_of db substanceID name =
     [m. m \<leftarrow> modes db, a \<leftarrow> attributes db,
         Mode_AttributeID m = Attribute_ID a,
         Mode_SubstanceID m = substanceID \<and> Attribute_Name a = name]"

definition quote :: string where
  "quote = [CHR 0x27]"

definition checkAttributeCondition :: "'x runtime \<Rightarrow> database \<Rightarrow> string \<Rightarrow> 'x Condition \<Rightarrow> bool \<times> string" where
  "checkAttributeCondition rt db substanceID condition =
     (case First Mode_ID (modes_of db substanceID (Condition_Name condition)) of
        None \<Rightarrow>
          (False, ''attribute '' @ quote @ Condition_Name condition @ quote @ '' not found for substance'')
      | Some mode \<Rightarrow>
          if Mode_Value mode \<noteq> Sprint rt (Condition_Value condition)
          then (False, ''attribute '' @ quote @ Condition_Name condition @ quote @ '' has value '' @ quote
                  @ Mode_Value mode @ quote @ '', expected '' @ quote
                  @ Sprint rt (Condition_Value condition) @ quote)
          else (True, []))"

definition checkModeCondition :: "'x runtime \<Rightarrow> database \<Rightarrow> string \<Rightarrow> 'x Condition \<Rightarrow> bool \<times> string" where
  "checkModeCondition rt db substanceID condition =
     (case value_eq rt (Condition_Value condition) of
        Inl err \<Rightarrow> (False, ''error checking mode condition: '' @ err)
      | Inr eq \<Rightarrow>
          let count = length (filter (\<lambda>m. eq (Mode_Value m))
                                (modes_of db substanceID (Condition_Name condition)))
          in if count = 0
             then (False, ''mode condition not met: '' @ Condition_Name condition @ '' = ''
                     @ Sprint rt (Condition_Value condition))
             else (True, []))"

definition checkSingleCondition :: "'x runtime \<Rightarrow> database \<Rightarrow> string \<Rightarrow> 'x Condition \<Rightarrow> bool \<times> string" where
  "checkSingleCondition rt db substanceID condition =
     (if Condition_Type condition = ''attribute'' then checkAttributeCondition rt db substanceID condition
      else if Condition_Type condition = ''mode'' then checkModeCondition rt db substanceID condition
      else if Condition_Type condition = ''external'' then (True, [])
      else (False, ''unknown condition type: '' @ Condition_Type condition))"

text \<open>The loop of \<^verbatim>\<open>CheckConditions\<close>, with its two variables as the accumulator.\<close>

fun check_loop :: "'x runtime \<Rightarrow> database \<Rightarrow> string \<Rightarrow> 'x Condition list \<Rightarrow> bool \<times> string list \<Rightarrow> bool \<times> string list" where
  "check_loop rt db substanceID [] (allMet, unmetConditions) = (allMet, unmetConditions)"
| "check_loop rt db substanceID (condition # conditions) (allMet, unmetConditions) =
     (case checkSingleCondition rt db substanceID condition of
        (met, reason) \<Rightarrow>
          if \<not> met then check_loop rt db substanceID conditions (False, unmetConditions @ [reason])
          else check_loop rt db substanceID conditions (allMet, unmetConditions))"

definition find_potentiality :: "string \<Rightarrow> database \<Rightarrow> Potentiality option" where
  "find_potentiality potentialityID db =
     First Potentiality_ID (filter (\<lambda>p. Potentiality_ID p = potentialityID) (potentialities db))"

definition find_substance :: "string \<Rightarrow> database \<Rightarrow> Substance option" where
  "find_substance substanceID db =
     First Substance_ID (filter (\<lambda>s. Substance_ID s = substanceID) (substances db))"

text \<open>
  Every operation of the engine takes the store and returns its result with the store it
  leaves behind.
\<close>

definition CheckConditions :: "'x runtime \<Rightarrow> string \<Rightarrow> database \<Rightarrow> (error + bool \<times> string list) \<times> database" where
  "CheckConditions rt potentialityID db =
     (case find_potentiality potentialityID db of
        None \<Rightarrow> (Inl PotentialityNotFound, db)
      | Some potentiality \<Rightarrow>
          (case json_Unmarshal rt (Conditions potentiality) of
             None \<Rightarrow> (Inl InvalidConditionsFormat, db)
           | Some conditions \<Rightarrow>
               (Inr (check_loop rt db (Potentiality_SubstanceID potentiality) conditions (True, [])), db)))"

definition ActualizePotentiality :: "'x runtime \<Rightarrow> string \<Rightarrow> string \<Rightarrow> string \<Rightarrow> time \<Rightarrow> database \<Rightarrow> (error + Actuality) \<times> database" where
  "ActualizePotentiality rt potentialityID description uuid now db =
     (case CheckConditions rt potentialityID db of
        (Inl err, db1) \<Rightarrow> (Inl err, db1)
      | (Inr (canActualize, unmetConditions), db1) \<Rightarrow>
          if \<not> canActualize then (Inl (ConditionsNotMet unmetConditions), db1)
          else (case find_potentiality potentialityID db1 of
                  None \<Rightarrow> (Inl PotentialityNotFound, db1)
                | Some potentiality \<Rightarrow>
                    let actuality = NewActuality description (Potentiality_SubstanceID potentiality)
                                      potentialityID uuid now
                    in (case Create_actuality actuality db1 of
                          None \<Rightarrow> (Inl CreateActualityFailed, db1)
                        | Some db2 \<Rightarrow> (Inr actuality, db2))))"

definition relations_of :: "database \<Rightarrow> string \<Rightarrow> CausalRelation list" where
  "relations_of db substanceID =
     filter (\<lambda>r. FromEntity r = substanceID \<or> ToEntity r = substanceID) (causal_relations db)"

definition GetFourCauses :: "string \<Rightarrow> database \<Rightarrow> (string \<rightharpoonup> string)" where
  "GetFourCauses substanceID db =
     fold (\<lambda>relation causes. causes(CauseType relation \<mapsto> ToEntity relation))
       (relations_of db substanceID) Map.empty"

definition validTypes :: "string \<Rightarrow> bool" where
  "validTypes causeType \<longleftrightarrow> causeType \<in> set [''material'', ''formal'', ''efficient'', ''final'']"

definition AddCausalRelation :: "string \<Rightarrow> string \<Rightarrow> string \<Rightarrow> string \<Rightarrow> time \<Rightarrow> database \<Rightarrow> (error + CausalRelation) \<times> database" where
  "AddCausalRelation fromEntity toEntity causeType uuid now db =
     (if \<not> validTypes causeType then (Inl (InvalidCauseType causeType), db)
      else let relation = NewCausalRelation causeType fromEntity toEntity uuid now
           in (case Create_causal_relation relation db of
                 None \<Rightarrow> (Inl CreateCausalRelationFailed, db)
               | Some db' \<Rightarrow> (Inr relation, db')))"

definition CreatePotentiality :: "'x runtime \<Rightarrow> string \<Rightarrow> string \<Rightarrow> string \<Rightarrow> string \<Rightarrow> string \<Rightarrow> time \<Rightarrow> database \<Rightarrow> (error + Potentiality) \<times> database" where
  "CreatePotentiality rt name description conditions substanceID uuid now db =
     (case find_substance substanceID db of
        None \<Rightarrow> (Inl SubstanceNotFound, db)
      | Some substance \<Rightarrow>
          if conditions \<noteq> [] \<and> json_Unmarshal rt conditions = None
          then (Inl InvalidConditionsJSONFormat, db)
          else let potentiality = NewPotentiality name description conditions substanceID uuid now
               in (case Create_potentiality potentiality db of
                     None \<Rightarrow> (Inl CreatePotentialityFailed, db)
                   | Some db' \<Rightarrow> (Inr potentiality, db')))"

section \<open>Stated properties and example stores\<close>


text \<open>Two condition texts: the one of the tests, and one with four conditions.\<close>

definition color_is_green :: string where
  \<open>color_is_green = ''[{"type":"mode","name":"color","value":"green"}]''\<close>

definition several_conditions :: string where
  \<open>several_conditions =
     ''[{"type":"mode","name":"color","value":"green"},{"type":"weather","name":"sun","value":"up"},{"type":"attribute","name":"color","value":"red"},{"type":"external","name":"permit","value":"granted"}]''\<close>

text \<open>
  A runtime for the examples. Its decoder gives what \<^verbatim>\<open>json.Unmarshal\<close> gives on the
  texts the examples use (the empty text is no JSON and is an error; \<^verbatim>\<open>[]\<close> is the
  empty list); other values are booleans, printed by \<^verbatim>\<open>%v\<close> as Go prints them and bound
  as SQLite binds them.
\<close>

definition test_runtime :: "bool runtime" where
  "test_runtime =
     \<lparr>json_Unmarshal = (\<lambda>s.
        if s = ''[]'' then Some []
        else if s = color_is_green
        then Some [\<lparr>Condition_Type = ''mode'', Condition_Name = ''color'', Condition_Value = VString ''green''\<rparr>]
        else if s = several_conditions
        then Some [\<lparr>Condition_Type = ''mode'', Condition_Name = ''color'', Condition_Value = VString ''green''\<rparr>,
                   \<lparr>Condition_Type = ''weather'', Condition_Name = ''sun'', Condition_Value = VString ''up''\<rparr>,
                   \<lparr>Condition_Type = ''attribute'', Condition_Name = ''color'', Condition_Value = VString ''red''\<rparr>,
                   \<lparr>Condition_Type = ''external'', Condition_Name = ''permit'', Condition_Value = VString ''granted''\<rparr>]
        else None),
      fmt_v = (\<lambda>b. if b then ''true'' else ''false''),
      sql_param = (\<lambda>b. Inr (\<lambda>col. col = (if b then ''1'' else ''0'')))\<rparr>"

text \<open>
  The store of the tests of the engine: the substance \<^verbatim>\<open>Tree-001\<close>, the attribute
  \<^verbatim>\<open>color\<close>, the given modes and one potentiality with the given condition text.
\<close>

definition tree_db :: "string \<Rightarrow> Mode list \<Rightarrow> database" where
  \<open>tree_db conditions ms =
     \<lparr>substances = [\<lparr>Substance_ID = ''s1'', Substance_Name = ''Tree-001'', Substance_Kind = ''Oak'',
                      Substance_Essence = ''Living organism'', Substance_CreatedAt = 1\<rparr>],
      attributes = [\<lparr>Attribute_ID = ''a1'', Attribute_Name = ''color'',
                      Attribute_Description = ''Visual property'', Attribute_DataType = ''string'',
                      Attribute_CreatedAt = 2\<rparr>],
      modes = ms,
      causal_relations = [],
      potentialities = [\<lparr>Potentiality_ID = ''p1'', Potentiality_Name = ''Grow Leaves'',
                          Potentiality_Description = ''Tree can grow leaves'',
                          Conditions = conditions,
                          Potentiality_CreatedAt = 4, Potentiality_SubstanceID = ''s1''\<rparr>],
      actualities = []\<rparr>\<close>

definition color_mode :: "string \<Rightarrow> string \<Rightarrow> Mode" where
  "color_mode mid v = \<lparr>Mode_ID = mid, Mode_Value = v, Mode_CreatedAt = 3,
                        Mode_SubstanceID = ''s1'', Mode_AttributeID = ''a1''\<rparr>"

definition empty_db :: database where
  "empty_db = \<lparr>substances = [], attributes = [], modes = [], causal_relations = [],
                potentialities = [], actualities = []\<rparr>"

text \<open>The condition text of the parsing test that is no JSON: its closing bracket is missing.\<close>

definition missing_bracket :: string where
  \<open>missing_bracket = ''[{"type":"attribute","name":"season","value":"spring"''\<close>

section \<open>Auxiliary facts\<close>

lemma check_loop_eq:
  "check_loop rt db sid cs (allMet, unmet) =
     (allMet \<and> (\<forall>c\<in>set cs. fst (checkSingleCondition rt db sid c)),
      unmet @ map (\<lambda>c. snd (checkSingleCondition rt db sid c))
                (filter (\<lambda>c. \<not> fst (checkSingleCondition rt db sid c)) cs))"
proof (induction cs arbitrary: allMet unmet)
  case Nil
  show ?case by simp
next
  case (Cons c cs)
  show ?case
  proof (cases "checkSingleCondition rt db sid c")
    case (Pair met reason)
    then show ?thesis using Cons.IH by (cases met) auto
  qed
qed

lemma First_None_iff: "First pk xs = None \<longleftrightarrow> xs = []"
  by (cases xs) (auto split: option.splits)

lemma First_in_set: "First pk xs = Some r \<Longrightarrow> r \<in> set xs"
  by (induction xs arbitrary: r) (auto split: option.splits if_splits)

lemma First_least: "First pk xs = Some r \<Longrightarrow> x \<in> set xs \<Longrightarrow> pk r \<le> pk x"
proof (induction xs arbitrary: r)
  case Nil
  then show ?case by simp
next
  case (Cons y ys)
  show ?case
  proof (cases "First pk ys")
    case None
    then have "ys = []" by (simp add: First_None_iff)
    with Cons.prems None show ?thesis by simp
  next
    case (Some r')
    with Cons show ?thesis by (fastforce split: if_splits)
  qed
qed

lemma find_app:
  "find P (xs @ ys) = (case find P xs of None \<Rightarrow> find P ys | Some x \<Rightarrow> Some x)"
  by (induction xs) auto

lemma fold_causes:
  "fold (\<lambda>relation causes. causes(CauseType relation \<mapsto> ToEntity relation)) rs m k =
     (case find (\<lambda>r. CauseType r = k) (rev rs) of None \<Rightarrow> m k | Some r \<Rightarrow> Some (ToEntity r))"
proof (induction rs rule: rev_induct)
  case Nil
  show ?case by simp
next
  case (snoc r rs)
  show ?case
  proof (cases "CauseType r = k")
    case True
    then show ?thesis by simp
  next
    case False
    then show ?thesis using snoc.IH by simp
  qed
qed

section \<open>Claims\<close>

lemmas engine_defs = CheckConditions_def ActualizePotentiality_def find_potentiality_def
  find_substance_def checkSingleCondition_def checkAttributeCondition_def checkModeCondition_def
  modes_of_def Create_actuality_def Create_potentiality_def Create_causal_relation_def
  NewActuality_def NewPotentiality_def NewCausalRelation_def CreatePotentiality_def
  AddCausalRelation_def GetFourCauses_def relations_of_def validTypes_def quote_def
lemmas test_defs = test_runtime_def tree_db_def color_mode_def color_is_green_def
  several_conditions_def empty_db_def missing_bracket_def

lemma CheckConditions_db: "snd (CheckConditions rt pid db) = db"
  by (simp add: CheckConditions_def split: option.splits)

text \<open>
  C1. Whenever \<^verbatim>\<open>CheckConditions\<close> on a potentiality answers that it is not ready,
  \<^verbatim>\<open>ActualizePotentiality\<close> on the same store fails with the error that carries the
  unmet conditions and leaves the store as it was: no actuality is created.
\<close>

theorem actualize_not_ready:
  assumes "CheckConditions rt pid db = (Inr (False, unmet), db')"
  shows "ActualizePotentiality rt pid description uuid now db = (Inl (ConditionsNotMet unmet), db)"
proof -
  from assms CheckConditions_db [of rt pid db] have "db' = db" by simp
  with assms show ?thesis by (simp add: ActualizePotentiality_def)
qed

theorem actualize_not_ready_witness:
  "CheckConditions test_runtime ''p1'' (tree_db color_is_green [color_mode ''m1'' ''red''])
     = (Inr (False, [''mode condition not met: color = green'']),
        tree_db color_is_green [color_mode ''m1'' ''red''])
   \<and> ActualizePotentiality test_runtime ''p1'' ''Tree grew leaves'' ''u1'' 5
        (tree_db color_is_green [color_mode ''m1'' ''red''])
     = (Inl (ConditionsNotMet [''mode condition not met: color = green'']),
        tree_db color_is_green [color_mode ''m1'' ''red''])"
proof -
  have h: "CheckConditions test_runtime ''p1'' (tree_db color_is_green [color_mode ''m1'' ''red''])
     = (Inr (False, [''mode condition not met: color = green'']),
        tree_db color_is_green [color_mode ''m1'' ''red''])"
    by (simp add: engine_defs test_defs)
  from actualize_not_ready [OF h] h show ?thesis by simp
qed

text \<open>
  C2. For a potentiality whose condition text decodes to the list \<open>conds\<close>,
  \<^verbatim>\<open>CheckConditions\<close> answers true exactly when every condition of the list passes;
  the reasons it returns are those of the failing conditions, one for each and in their
  order, whatever failed before them, and there is none when the answer is true.
\<close>

theorem CheckConditions_conjunction:
  assumes "find_potentiality pid db = Some p"
    and "json_Unmarshal rt (Conditions p) = Some conds"
  shows "\<exists>allMet unmet.
           CheckConditions rt pid db = (Inr (allMet, unmet), db)
         \<and> (allMet \<longleftrightarrow> (\<forall>c\<in>set conds. fst (checkSingleCondition rt db (Potentiality_SubstanceID p) c)))
         \<and> unmet = map (\<lambda>c. snd (checkSingleCondition rt db (Potentiality_SubstanceID p) c))
                      (filter (\<lambda>c. \<not> fst (checkSingleCondition rt db (Potentiality_SubstanceID p) c)) conds)
         \<and> length unmet = length (filter (\<lambda>c. \<not> fst (checkSingleCondition rt db (Potentiality_SubstanceID p) c)) conds)
         \<and> (allMet \<longrightarrow> unmet = [])"
proof -
  let ?fails = "\<lambda>c. \<not> fst (checkSingleCondition rt db (Potentiality_SubstanceID p) c)"
  have "(\<forall>c\<in>set conds. \<not> ?fails c) \<Longrightarrow> filter ?fails conds = []"
    by (simp add: filter_empty_conv)
  then show ?thesis
    using assms by (auto simp: CheckConditions_def check_loop_eq)
qed

theorem CheckConditions_conjunction_witness:
  "find_potentiality ''p1'' (tree_db several_conditions [color_mode ''m1'' ''red''])
     = Some \<lparr>Potentiality_ID = ''p1'', Potentiality_Name = ''Grow Leaves'',
             Potentiality_Description = ''Tree can grow leaves'', Conditions = several_conditions,
             Potentiality_CreatedAt = 4, Potentiality_SubstanceID = ''s1''\<rparr>
   \<and> map_option length (json_Unmarshal test_runtime several_conditions) = Some 4
   \<and> CheckConditions test_runtime ''p1'' (tree_db several_conditions [color_mode ''m1'' ''red''])
     = (Inr (False, [''mode condition not met: color = green'', ''unknown condition type: weather'']),
        tree_db several_conditions [color_mode ''m1'' ''red''])"
proof -
  let ?db = "tree_db several_conditions [color_mode ''m1'' ''red'']"
  let ?p = "\<lparr>Potentiality_ID = ''p1'', Potentiality_Name = ''Grow Leaves'',
             Potentiality_Description = ''Tree can grow leaves'', Conditions = several_conditions,
             Potentiality_CreatedAt = 4, Potentiality_SubstanceID = ''s1''\<rparr>"
  let ?conds = "[\<lparr>Condition_Type = ''mode'', Condition_Name = ''color'', Condition_Value = VString ''green''\<rparr>,
                   \<lparr>Condition_Type = ''weather'', Condition_Name = ''sun'', Condition_Value = VString ''up''\<rparr>,
                   \<lparr>Condition_Type = ''attribute'', Condition_Name = ''color'', Condition_Value = VString ''red''\<rparr>,
                   \<lparr>Condition_Type = ''external'', Condition_Name = ''permit'', Condition_Value = (VString ''granted'' :: bool cvalue)\<rparr>]"
  have h1: "find_potentiality ''p1'' ?db = Some ?p"
    by (simp add: find_potentiality_def tree_db_def)
  have h2: "json_Unmarshal test_runtime (Conditions ?p) = Some ?conds"
    by (simp add: test_defs)
  have c1: "checkSingleCondition test_runtime ?db ''s1'' (?conds ! 0) = (False, ''mode condition not met: color = green'')"
    by (simp add: engine_defs tree_db_def color_mode_def test_runtime_def)
  have c2: "checkSingleCondition test_runtime ?db ''s1'' (?conds ! 1) = (False, ''unknown condition type: weather'')"
    by (simp add: engine_defs)
  have c3: "checkSingleCondition test_runtime ?db ''s1'' (?conds ! 2) = (True, [])"
    by (simp add: engine_defs tree_db_def color_mode_def test_runtime_def)
  have c4: "checkSingleCondition test_runtime ?db ''s1'' (?conds ! 3) = (True, [])"
    by (simp add: engine_defs)
  from CheckConditions_conjunction [OF h1 h2] obtain allMet unmet where
    r: "CheckConditions test_runtime ''p1'' ?db = (Inr (allMet, unmet), ?db)"
    and a: "allMet \<longleftrightarrow> (\<forall>c\<in>set ?conds. fst (checkSingleCondition test_runtime ?db (Potentiality_SubstanceID ?p) c))"
    and u: "unmet = map (\<lambda>c. snd (checkSingleCondition test_runtime ?db (Potentiality_SubstanceID ?p) c))
                      (filter (\<lambda>c. \<not> fst (checkSingleCondition test_runtime ?db (Potentiality_SubstanceID ?p) c)) ?conds)"
    by blast
  from a c1 have "\<not> allMet" by simp
  moreover from u c1 c2 c3 c4 have "unmet = [''mode condition not met: color = green'', ''unknown condition type: weather'']"
    by simp
  ultimately show ?thesis using r h1 h2 by simp
qed

lemma First_Some_ex: "xs \<noteq> [] \<Longrightarrow> \<exists>r. First pk xs = Some r"
  by (cases "First pk xs") (simp_all add: First_None_iff)

lemma set_modes_of:
  "set (modes_of db E P) =
     {m \<in> set (modes db). Mode_SubstanceID m = E \<and>
        (\<exists>a\<in>set (attributes db). Mode_AttributeID m = Attribute_ID a \<and> Attribute_Name a = P)}"
  by (auto simp: modes_of_def)

lemma inj_on_modes_of:
  "distinct (map Mode_ID (modes db)) \<Longrightarrow> inj_on Mode_ID (set (modes_of db E P))"
  by (rule inj_on_subset [where A = "set (modes db)"]) (auto simp: distinct_map set_modes_of)

lemma First_Some_iff:
  assumes "inj_on pk (set xs)"
  shows "First pk xs = Some r \<longleftrightarrow> r \<in> set xs \<and> (\<forall>x\<in>set xs. pk r \<le> pk x)"
proof
  assume "First pk xs = Some r"
  then show "r \<in> set xs \<and> (\<forall>x\<in>set xs. pk r \<le> pk x)"
    using First_in_set First_least by fastforce
next
  assume r: "r \<in> set xs \<and> (\<forall>x\<in>set xs. pk r \<le> pk x)"
  then have "xs \<noteq> []" by auto
  then obtain r' where r': "First pk xs = Some r'"
    using First_Some_ex by blast
  then have "r' \<in> set xs" "pk r' \<le> pk r"
    using First_in_set First_least r by fastforce+
  with r have "pk r' = pk r" by fastforce
  with assms r \<open>r' \<in> set xs\<close> have "r' = r" by (auto dest: inj_onD)
  with r' show "First pk xs = Some r" by simp
qed

lemma First_set_cong:
  assumes "set xs = set ys" and "inj_on pk (set xs)"
  shows "First pk xs = First pk ys"
proof (cases "First pk xs")
  case None
  then have "xs = []" by (simp add: First_None_iff)
  with assms(1) have "ys = []" by simp
  with None show ?thesis by simp
next
  case (Some r)
  with assms(2) have "r \<in> set xs \<and> (\<forall>x\<in>set xs. pk r \<le> pk x)"
    by (simp add: First_Some_iff)
  with assms have "First pk ys = Some r"
    by (simp add: First_Some_iff)
  with Some show ?thesis by simp
qed





lemma filter_fresh_potentiality:
  "Potentiality_ID p \<notin> set (map Potentiality_ID ps) \<Longrightarrow>
   filter (\<lambda>q. Potentiality_ID q = Potentiality_ID p) (ps @ [p]) = [p]"
  by (induction ps) auto

lemma CreatePotentiality_Inr:
  assumes "CreatePotentiality rt name description conditions substanceID uuid now db = (Inr p, db1)"
  shows "p = NewPotentiality name description conditions substanceID uuid now"
    and "uuid \<notin> set (map Potentiality_ID (potentialities db))"
    and "db1 = db\<lparr>potentialities := potentialities db @ [p]\<rparr>"
    and "find_substance substanceID db \<noteq> None"
    and "conditions = [] \<or> json_Unmarshal rt conditions \<noteq> None"
  using assms
  by (auto simp: CreatePotentiality_def Create_potentiality_def Let_def NewPotentiality_def
           split: option.splits if_splits)

lemma find_created_potentiality:
  assumes "CreatePotentiality rt name description conditions substanceID uuid now db = (Inr p, db1)"
  shows "find_potentiality uuid db1 = Some p"
proof -
  note c = CreatePotentiality_Inr [OF assms]
  from c(1) have id: "Potentiality_ID p = uuid" by (simp add: NewPotentiality_def)
  with c(2) have "filter (\<lambda>q. Potentiality_ID q = uuid) (potentialities db @ [p]) = [p]"
    using filter_fresh_potentiality [of p "potentialities db"] by simp
  with c(3) show ?thesis by (simp add: find_potentiality_def)
qed

text \<open>
  C4 on the code. \<^verbatim>\<open>CreatePotentiality\<close> accepts the empty condition text without
  decoding it. The decoder rejects the empty text, as \<^verbatim>\<open>json.Unmarshal\<close> does, and so
  for the potentiality just created \<^verbatim>\<open>CheckConditions\<close> returns the error of an invalid
  format instead of ready, and \<^verbatim>\<open>ActualizePotentiality\<close> fails with it.
\<close>

theorem empty_text_never_ready:
  assumes "json_Unmarshal rt [] = None"
    and "CreatePotentiality rt name description [] substanceID uuid now db = (Inr p, db1)"
  shows "CheckConditions rt uuid db1 = (Inl InvalidConditionsFormat, db1)
       \<and> ActualizePotentiality rt uuid outcome uuid' now' db1 = (Inl InvalidConditionsFormat, db1)"
proof -
  from assms(2) have f: "find_potentiality uuid db1 = Some p"
    by (rule find_created_potentiality)
  from CreatePotentiality_Inr(1) [OF assms(2)] have "Conditions p = []"
    by (simp add: NewPotentiality_def)
  with f assms(1) have "CheckConditions rt uuid db1 = (Inl InvalidConditionsFormat, db1)"
    by (simp add: CheckConditions_def)
  then show ?thesis by (simp add: ActualizePotentiality_def)
qed

theorem empty_text_never_ready_witness:
  "json_Unmarshal test_runtime [] = None
   \<and> CreatePotentiality test_runtime ''Produce Acorns'' ''Tree can produce acorns'' [] ''s1'' ''p2'' 5
        (tree_db color_is_green [])
     = (Inr (NewPotentiality ''Produce Acorns'' ''Tree can produce acorns'' [] ''s1'' ''p2'' 5),
        (tree_db color_is_green [])\<lparr>potentialities := potentialities (tree_db color_is_green [])
           @ [NewPotentiality ''Produce Acorns'' ''Tree can produce acorns'' [] ''s1'' ''p2'' 5]\<rparr>)
   \<and> CheckConditions test_runtime ''p2''
        ((tree_db color_is_green [])\<lparr>potentialities := potentialities (tree_db color_is_green [])
           @ [NewPotentiality ''Produce Acorns'' ''Tree can produce acorns'' [] ''s1'' ''p2'' 5]\<rparr>)
     = (Inl InvalidConditionsFormat,
        (tree_db color_is_green [])\<lparr>potentialities := potentialities (tree_db color_is_green [])
           @ [NewPotentiality ''Produce Acorns'' ''Tree can produce acorns'' [] ''s1'' ''p2'' 5]\<rparr>)
   \<and> ActualizePotentiality test_runtime ''p2'' ''Tree produced acorns'' ''x1'' 6
        ((tree_db color_is_green [])\<lparr>potentialities := potentialities (tree_db color_is_green [])
           @ [NewPotentiality ''Produce Acorns'' ''Tree can produce acorns'' [] ''s1'' ''p2'' 5]\<rparr>)
     = (Inl InvalidConditionsFormat,
        (tree_db color_is_green [])\<lparr>potentialities := potentialities (tree_db color_is_green [])
           @ [NewPotentiality ''Produce Acorns'' ''Tree can produce acorns'' [] ''s1'' ''p2'' 5]\<rparr>)"
proof -
  let ?db = "tree_db color_is_green []"
  let ?p = "NewPotentiality ''Produce Acorns'' ''Tree can produce acorns'' [] ''s1'' ''p2'' 5"
  have h1: "json_Unmarshal test_runtime [] = None"
    by (simp add: test_defs)
  have h2: "CreatePotentiality test_runtime ''Produce Acorns'' ''Tree can produce acorns'' [] ''s1'' ''p2'' 5 ?db
     = (Inr ?p, ?db\<lparr>potentialities := potentialities ?db @ [?p]\<rparr>)"
    by (simp add: CreatePotentiality_def find_substance_def Create_potentiality_def tree_db_def
          Let_def NewPotentiality_def)
  from empty_text_never_ready [OF h1 h2, of "''Tree produced acorns''" "''x1''" 6] h1 h2
  show ?thesis by simp
qed

text \<open>
  The other half of C4 holds: a condition text that decodes to the empty list is always
  ready, and its actualization succeeds with an unused identifier.
\<close>

lemma empty_list_always_ready:
  assumes "find_potentiality pid db = Some p"
    and "json_Unmarshal rt (Conditions p) = Some []"
    and "uuid \<notin> set (map Actuality_ID (actualities db))"
  shows "CheckConditions rt pid db = (Inr (True, []), db)"
    and "ActualizePotentiality rt pid outcome uuid now db =
           (Inr (NewActuality outcome (Potentiality_SubstanceID p) pid uuid now),
            db\<lparr>actualities := actualities db
                  @ [NewActuality outcome (Potentiality_SubstanceID p) pid uuid now]\<rparr>)"
  using assms
  by (simp_all add: CheckConditions_def ActualizePotentiality_def Create_actuality_def
        NewActuality_def Let_def)

lemma set_modes_of_cong:
  assumes "set (modes db') = set (modes db)" and "set (attributes db') = set (attributes db)"
  shows "set (modes_of db' E P) = set (modes_of db E P)"
  using assms by (simp add: set_modes_of)

lemma checkSingleCondition_cong:
  assumes "set (modes db') = set (modes db)" and "set (attributes db') = set (attributes db)"
    and "distinct (map Mode_ID (modes db))"
  shows "checkSingleCondition rt db' sid c = checkSingleCondition rt db sid c"
proof -
  let ?rows = "modes_of db sid (Condition_Name c)"
  let ?rows' = "modes_of db' sid (Condition_Name c)"
  have s: "set ?rows' = set ?rows"
    using assms(1,2) by (rule set_modes_of_cong)
  from assms(3) have "inj_on Mode_ID (set ?rows)" by (rule inj_on_modes_of)
  with s have "First Mode_ID ?rows' = First Mode_ID ?rows"
    by (intro First_set_cong) simp_all
  then have a: "checkAttributeCondition rt db' sid c = checkAttributeCondition rt db sid c"
    by (simp add: checkAttributeCondition_def)
  have "(filter Q ?rows' = []) = (filter Q ?rows = [])" for Q
    using s by (simp add: filter_empty_conv)
  then have m: "checkModeCondition rt db' sid c = checkModeCondition rt db sid c"
    by (simp add: checkModeCondition_def split: sum.splits)
  from a m show ?thesis by (simp add: checkSingleCondition_def)
qed

lemma find_potentiality_cong:
  assumes "set (potentialities db') = set (potentialities db)"
    and "distinct (map Potentiality_ID (potentialities db))"
  shows "find_potentiality pid db' = find_potentiality pid db"
proof -
  from assms(2) have "inj_on Potentiality_ID (set (potentialities db))"
    by (simp add: distinct_map)
  then have "inj_on Potentiality_ID (set (filter (\<lambda>p. Potentiality_ID p = pid) (potentialities db')))"
    using assms(1) by (auto intro: inj_on_subset)
  moreover have "set (filter (\<lambda>p. Potentiality_ID p = pid) (potentialities db'))
      = set (filter (\<lambda>p. Potentiality_ID p = pid) (potentialities db))"
    using assms(1) by simp
  ultimately show ?thesis
    unfolding find_potentiality_def by (intro First_set_cong)
qed

text \<open>
  C5. The result of \<^verbatim>\<open>CheckConditions\<close> is determined by the rows of the tables it
  reads. Two stores that hold the same modes, attributes and potentialities, with unique
  identifiers, give the same error, or the same verdict and the same unmet conditions,
  in whatever order the rows are stored or returned and whatever the other tables hold.
  The evaluation leaves the store as it was, so evaluating again gives the same result.
\<close>

theorem CheckConditions_deterministic:
  assumes "set (modes db') = set (modes db)"
    and "set (attributes db') = set (attributes db)"
    and "set (potentialities db') = set (potentialities db)"
    and "distinct (map Mode_ID (modes db))"
    and "distinct (map Potentiality_ID (potentialities db))"
  shows "fst (CheckConditions rt pid db') = fst (CheckConditions rt pid db)
       \<and> CheckConditions rt pid (snd (CheckConditions rt pid db)) = CheckConditions rt pid db"
proof -
  have f: "find_potentiality pid db' = find_potentiality pid db"
    using assms(3,5) by (rule find_potentiality_cong)
  have c: "checkSingleCondition rt db' sid c = checkSingleCondition rt db sid c" for sid c
    using assms(1,2,4) by (rule checkSingleCondition_cong)
  have "fst (CheckConditions rt pid db') = fst (CheckConditions rt pid db)"
    by (simp add: CheckConditions_def f check_loop_eq c split: option.splits)
  then show ?thesis by (simp add: CheckConditions_db)
qed

theorem CheckConditions_deterministic_witness:
  "set (modes ((tree_db several_conditions [color_mode ''m2'' ''green'', color_mode ''m1'' ''red''])
          \<lparr>actualities := [NewActuality ''Tree grew leaves'' ''s1'' ''p1'' ''x1'' 5]\<rparr>))
     = set (modes (tree_db several_conditions [color_mode ''m1'' ''red'', color_mode ''m2'' ''green'']))
   \<and> distinct (map Mode_ID (modes (tree_db several_conditions
         [color_mode ''m1'' ''red'', color_mode ''m2'' ''green''])))
   \<and> distinct (map Potentiality_ID (potentialities (tree_db several_conditions
         [color_mode ''m1'' ''red'', color_mode ''m2'' ''green''])))
   \<and> fst (CheckConditions test_runtime ''p1''
          (tree_db several_conditions [color_mode ''m1'' ''red'', color_mode ''m2'' ''green'']))
     = Inr (False, [''unknown condition type: weather''])
   \<and> fst (CheckConditions test_runtime ''p1''
          ((tree_db several_conditions [color_mode ''m2'' ''green'', color_mode ''m1'' ''red''])
             \<lparr>actualities := [NewActuality ''Tree grew leaves'' ''s1'' ''p1'' ''x1'' 5]\<rparr>))
     = Inr (False, [''unknown condition type: weather''])"
proof -
  let ?db = "tree_db several_conditions [color_mode ''m1'' ''red'', color_mode ''m2'' ''green'']"
  let ?db' = "(tree_db several_conditions [color_mode ''m2'' ''green'', color_mode ''m1'' ''red''])
          \<lparr>actualities := [NewActuality ''Tree grew leaves'' ''s1'' ''p1'' ''x1'' 5]\<rparr>"
  have h1: "set (modes ?db') = set (modes ?db)"
    by (auto simp: tree_db_def)
  have h2: "set (attributes ?db') = set (attributes ?db)"
    by (simp add: tree_db_def)
  have h3: "set (potentialities ?db') = set (potentialities ?db)"
    by (simp add: tree_db_def)
  have h4: "distinct (map Mode_ID (modes ?db))"
    by (simp add: tree_db_def color_mode_def)
  have h5: "distinct (map Potentiality_ID (potentialities ?db))"
    by (simp add: tree_db_def)
  have r: "fst (CheckConditions test_runtime ''p1'' ?db) = Inr (False, [''unknown condition type: weather''])"
    by (simp add: engine_defs test_defs)
  from CheckConditions_deterministic [OF h1 h2 h3 h4 h5, of test_runtime "''p1''"] r
  have "fst (CheckConditions test_runtime ''p1'' ?db') = Inr (False, [''unknown condition type: weather''])"
    by simp
  with h1 h4 h5 r show ?thesis by simp
qed

text \<open>
  C9. \<^verbatim>\<open>CheckConditions\<close> leaves the store, every table of it, as it found it, for
  every identifier; when no potentiality has the identifier it fails with the not-found
  error.
\<close>

theorem CheckConditions_reads_only:
  "snd (CheckConditions rt pid db) = db
   \<and> (pid \<notin> set (map Potentiality_ID (potentialities db)) \<longrightarrow>
        fst (CheckConditions rt pid db) = Inl PotentialityNotFound)"
proof -
  have "filter (\<lambda>p. Potentiality_ID p = pid) (potentialities db) = []"
    if "pid \<notin> set (map Potentiality_ID (potentialities db))"
    using that by (auto simp: filter_empty_conv)
  then show ?thesis
    by (simp add: CheckConditions_db) (simp add: CheckConditions_def find_potentiality_def)
qed

theorem CheckConditions_reads_only_witness:
  "''p9'' \<notin> set (map Potentiality_ID (potentialities (tree_db color_is_green [color_mode ''m1'' ''green''])))
   \<and> CheckConditions test_runtime ''p9'' (tree_db color_is_green [color_mode ''m1'' ''green''])
       = (Inl PotentialityNotFound, tree_db color_is_green [color_mode ''m1'' ''green''])
   \<and> CheckConditions test_runtime ''p1'' (tree_db color_is_green [color_mode ''m1'' ''green''])
       = (Inr (True, []), tree_db color_is_green [color_mode ''m1'' ''green''])"
proof -
  let ?db = "tree_db color_is_green [color_mode ''m1'' ''green'']"
  have h: "''p9'' \<notin> set (map Potentiality_ID (potentialities ?db))"
    by (simp add: tree_db_def)
  have r: "fst (CheckConditions test_runtime ''p1'' ?db) = Inr (True, [])"
    by (simp add: engine_defs test_defs)
  from CheckConditions_reads_only [of test_runtime "''p9''" ?db]
       CheckConditions_reads_only [of test_runtime "''p1''" ?db] h r
  show ?thesis by (simp add: prod_eq_iff)
qed

lemma find_substance_None_iff:
  "find_substance sid db = None \<longleftrightarrow> sid \<notin> set (map Substance_ID (substances db))"
  by (auto simp: find_substance_def First_None_iff filter_empty_conv)

text \<open>
  C6. \<^verbatim>\<open>CreatePotentiality\<close> fails with the not-found error when no substance has the
  given identifier; for an existing substance it fails with the invalid-format error when
  the condition text is not empty and does not decode. Every failure leaves the store as
  it was. On success the store has gained the returned potentiality and nothing else, and
  that record carries the given name, description, condition text and substance.
\<close>

theorem CreatePotentiality_validates:
  "(substanceID \<notin> set (map Substance_ID (substances db)) \<longrightarrow>
      CreatePotentiality rt name description conditions substanceID uuid now db
        = (Inl SubstanceNotFound, db))
   \<and> (substanceID \<in> set (map Substance_ID (substances db)) \<and> conditions \<noteq> []
        \<and> json_Unmarshal rt conditions = None \<longrightarrow>
      CreatePotentiality rt name description conditions substanceID uuid now db
        = (Inl InvalidConditionsJSONFormat, db))
   \<and> (\<forall>err db'. CreatePotentiality rt name description conditions substanceID uuid now db
                    = (Inl err, db') \<longrightarrow> db' = db)
   \<and> (\<forall>p db'. CreatePotentiality rt name description conditions substanceID uuid now db
                    = (Inr p, db') \<longrightarrow>
          db' = db\<lparr>potentialities := potentialities db @ [p]\<rparr>
        \<and> Potentiality_Name p = name \<and> Potentiality_Description p = description
        \<and> Conditions p = conditions \<and> Potentiality_SubstanceID p = substanceID)"
proof (intro conjI allI impI)
  assume "substanceID \<notin> set (map Substance_ID (substances db))"
  then have "find_substance substanceID db = None"
    by (simp add: find_substance_None_iff)
  then show "CreatePotentiality rt name description conditions substanceID uuid now db
        = (Inl SubstanceNotFound, db)"
    by (simp add: CreatePotentiality_def)
next
  assume a: "substanceID \<in> set (map Substance_ID (substances db)) \<and> conditions \<noteq> []
        \<and> json_Unmarshal rt conditions = None"
  then have "find_substance substanceID db \<noteq> None"
    by (simp add: find_substance_None_iff)
  with a show "CreatePotentiality rt name description conditions substanceID uuid now db
        = (Inl InvalidConditionsJSONFormat, db)"
    by (auto simp: CreatePotentiality_def)
next
  fix err db'
  assume "CreatePotentiality rt name description conditions substanceID uuid now db = (Inl err, db')"
  then show "db' = db"
    by (auto simp: CreatePotentiality_def Let_def split: option.splits if_splits)
next
  fix p db'
  assume c: "CreatePotentiality rt name description conditions substanceID uuid now db = (Inr p, db')"
  note r = CreatePotentiality_Inr [OF c]
  from r(3) show "db' = db\<lparr>potentialities := potentialities db @ [p]\<rparr>" .
  from r(1) show "Potentiality_Name p = name" by (simp add: NewPotentiality_def)
  from r(1) show "Potentiality_Description p = description" by (simp add: NewPotentiality_def)
  from r(1) show "Conditions p = conditions" by (simp add: NewPotentiality_def)
  from r(1) show "Potentiality_SubstanceID p = substanceID" by (simp add: NewPotentiality_def)
qed

theorem CreatePotentiality_validates_witness:
  "''non-existent-id'' \<notin> set (map Substance_ID (substances (tree_db color_is_green [])))
   \<and> CreatePotentiality test_runtime ''Grow Leaves'' ''Description'' [] ''non-existent-id'' ''p2'' 5
        (tree_db color_is_green [])
       = (Inl SubstanceNotFound, tree_db color_is_green [])
   \<and> ''s1'' \<in> set (map Substance_ID (substances (tree_db color_is_green [])))
   \<and> missing_bracket \<noteq> [] \<and> json_Unmarshal test_runtime missing_bracket = None
   \<and> CreatePotentiality test_runtime ''Grow Leaves'' ''Description'' missing_bracket ''s1'' ''p2'' 5
        (tree_db color_is_green [])
       = (Inl InvalidConditionsJSONFormat, tree_db color_is_green [])
   \<and> CreatePotentiality test_runtime ''Grow Leaves'' ''Description'' several_conditions ''s1'' ''p2'' 5
        (tree_db color_is_green [])
       = (Inr \<lparr>Potentiality_ID = ''p2'', Potentiality_Name = ''Grow Leaves'',
               Potentiality_Description = ''Description'', Conditions = several_conditions,
               Potentiality_CreatedAt = 5, Potentiality_SubstanceID = ''s1''\<rparr>,
          (tree_db color_is_green [])\<lparr>potentialities := potentialities (tree_db color_is_green [])
            @ [\<lparr>Potentiality_ID = ''p2'', Potentiality_Name = ''Grow Leaves'',
               Potentiality_Description = ''Description'', Conditions = several_conditions,
               Potentiality_CreatedAt = 5, Potentiality_SubstanceID = ''s1''\<rparr>]\<rparr>)"
proof -
  let ?db = "tree_db color_is_green []"
  have h1: "''non-existent-id'' \<notin> set (map Substance_ID (substances ?db))"
    by (simp add: tree_db_def)
  have h2: "''s1'' \<in> set (map Substance_ID (substances ?db)) \<and> missing_bracket \<noteq> []
        \<and> json_Unmarshal test_runtime missing_bracket = None"
    by (simp add: test_defs)
  have h3: "CreatePotentiality test_runtime ''Grow Leaves'' ''Description'' several_conditions ''s1'' ''p2'' 5 ?db
       = (Inr \<lparr>Potentiality_ID = ''p2'', Potentiality_Name = ''Grow Leaves'',
               Potentiality_Description = ''Description'', Conditions = several_conditions,
               Potentiality_CreatedAt = 5, Potentiality_SubstanceID = ''s1''\<rparr>,
          ?db\<lparr>potentialities := potentialities ?db
            @ [\<lparr>Potentiality_ID = ''p2'', Potentiality_Name = ''Grow Leaves'',
               Potentiality_Description = ''Description'', Conditions = several_conditions,
               Potentiality_CreatedAt = 5, Potentiality_SubstanceID = ''s1''\<rparr>]\<rparr>)"
    by (simp add: CreatePotentiality_def find_substance_def Create_potentiality_def
          Let_def NewPotentiality_def test_defs)
  from CreatePotentiality_validates [where substanceID = "''non-existent-id''" and db = ?db
         and rt = test_runtime and name = "''Grow Leaves''" and description = "''Description''"
         and conditions = "[]" and uuid = "''p2''" and now = 5]
       CreatePotentiality_validates [where substanceID = "''s1''" and db = ?db
         and rt = test_runtime and name = "''Grow Leaves''" and description = "''Description''"
         and conditions = missing_bracket and uuid = "''p2''" and now = 5]
       h1 h2 h3
  show ?thesis by blast
qed

lemma GetFourCauses_find:
  "GetFourCauses X db k =
     map_option ToEntity
       (find (\<lambda>r. CauseType r = k)
          (rev (filter (\<lambda>r. FromEntity r = X \<or> ToEntity r = X) (causal_relations db))))"
  by (simp add: GetFourCauses_def relations_of_def fold_causes split: option.splits)

lemma AddCausalRelation_Inr:
  assumes "AddCausalRelation fromEntity toEntity causeType uuid now db = (Inr r, db')"
  shows "r = NewCausalRelation causeType fromEntity toEntity uuid now"
    and "db' = db\<lparr>causal_relations := causal_relations db @ [r]\<rparr>"
    and "validTypes causeType"
  using assms
  by (auto simp: AddCausalRelation_def Create_causal_relation_def Let_def
           split: if_splits)

text \<open>
  C7. \<^verbatim>\<open>GetFourCauses\<close> for an entity reads exactly the relations that have the entity
  as their \<^verbatim>\<open>from\<close> or \<^verbatim>\<open>to\<close> end: a cause type is mapped to the \<^verbatim>\<open>to\<close> end
  of the last stored of these relations with that type, and is absent from the map when
  there is none. So after adding \<^verbatim>\<open>X, Y, material\<close> and then
  \<^verbatim>\<open>X, Z, material\<close> to any store, \<^verbatim>\<open>material\<close> is mapped to \<^verbatim>\<open>Z\<close> for
  \<^verbatim>\<open>X\<close>.
\<close>

theorem GetFourCauses_last_wins:
  "GetFourCauses X db k =
     map_option ToEntity
       (find (\<lambda>r. CauseType r = k)
          (rev (filter (\<lambda>r. FromEntity r = X \<or> ToEntity r = X) (causal_relations db))))
   \<and> (\<forall>r1 db1 r2 db2.
         AddCausalRelation ''X'' ''Y'' ''material'' u1 t1 db = (Inr r1, db1) \<longrightarrow>
         AddCausalRelation ''X'' ''Z'' ''material'' u2 t2 db1 = (Inr r2, db2) \<longrightarrow>
         GetFourCauses ''X'' db2 ''material'' = Some ''Z'')"
proof (intro conjI allI impI)
  show "GetFourCauses X db k =
     map_option ToEntity
       (find (\<lambda>r. CauseType r = k)
          (rev (filter (\<lambda>r. FromEntity r = X \<or> ToEntity r = X) (causal_relations db))))"
    by (rule GetFourCauses_find)
next
  fix r1 db1 r2 db2
  assume a1: "AddCausalRelation ''X'' ''Y'' ''material'' u1 t1 db = (Inr r1, db1)"
    and a2: "AddCausalRelation ''X'' ''Z'' ''material'' u2 t2 db1 = (Inr r2, db2)"
  note s = AddCausalRelation_Inr [OF a2]
  from s(1) have r2: "FromEntity r2 = ''X''" "ToEntity r2 = ''Z''" "CauseType r2 = ''material''"
    by (simp_all add: NewCausalRelation_def)
  from s(2) have "causal_relations db2 = causal_relations db1 @ [r2]" by simp
  with r2 show "GetFourCauses ''X'' db2 ''material'' = Some ''Z''"
    by (simp add: GetFourCauses_find)
qed

theorem GetFourCauses_last_wins_witness:
  "AddCausalRelation ''X'' ''Y'' ''material'' ''c1'' 1 empty_db
     = (Inr (NewCausalRelation ''material'' ''X'' ''Y'' ''c1'' 1),
        empty_db\<lparr>causal_relations := [NewCausalRelation ''material'' ''X'' ''Y'' ''c1'' 1]\<rparr>)
   \<and> AddCausalRelation ''X'' ''Z'' ''material'' ''c2'' 2
        (empty_db\<lparr>causal_relations := [NewCausalRelation ''material'' ''X'' ''Y'' ''c1'' 1]\<rparr>)
     = (Inr (NewCausalRelation ''material'' ''X'' ''Z'' ''c2'' 2),
        empty_db\<lparr>causal_relations := [NewCausalRelation ''material'' ''X'' ''Y'' ''c1'' 1,
                                        NewCausalRelation ''material'' ''X'' ''Z'' ''c2'' 2]\<rparr>)
   \<and> GetFourCauses ''X''
        (empty_db\<lparr>causal_relations := [NewCausalRelation ''material'' ''X'' ''Y'' ''c1'' 1,
                                        NewCausalRelation ''material'' ''X'' ''Z'' ''c2'' 2]\<rparr>)
        ''material'' = Some ''Z''
   \<and> GetFourCauses ''X''
        (empty_db\<lparr>causal_relations := [NewCausalRelation ''material'' ''X'' ''Y'' ''c1'' 1,
                                        NewCausalRelation ''material'' ''X'' ''Z'' ''c2'' 2]\<rparr>)
        ''formal'' = None"
proof -
  let ?r1 = "NewCausalRelation ''material'' ''X'' ''Y'' ''c1'' 1"
  let ?r2 = "NewCausalRelation ''material'' ''X'' ''Z'' ''c2'' 2"
  have h1: "AddCausalRelation ''X'' ''Y'' ''material'' ''c1'' 1 empty_db
     = (Inr ?r1, empty_db\<lparr>causal_relations := [?r1]\<rparr>)"
    by (simp add: AddCausalRelation_def validTypes_def Create_causal_relation_def Let_def
          empty_db_def NewCausalRelation_def)
  have h2: "AddCausalRelation ''X'' ''Z'' ''material'' ''c2'' 2 (empty_db\<lparr>causal_relations := [?r1]\<rparr>)
     = (Inr ?r2, empty_db\<lparr>causal_relations := [?r1, ?r2]\<rparr>)"
    by (simp add: AddCausalRelation_def validTypes_def Create_causal_relation_def Let_def
          empty_db_def NewCausalRelation_def)
  note t = GetFourCauses_last_wins [where db = empty_db and ?u1.0 = "''c1''" and ?t1.0 = 1
             and ?u2.0 = "''c2''" and ?t2.0 = 2]
  from t h1 h2 have g: "GetFourCauses ''X'' (empty_db\<lparr>causal_relations := [?r1, ?r2]\<rparr>) ''material'' = Some ''Z''"
    by blast
  have f: "GetFourCauses ''X'' (empty_db\<lparr>causal_relations := [?r1, ?r2]\<rparr>) ''formal'' = None"
    by (simp add: GetFourCauses_def relations_of_def NewCausalRelation_def empty_db_def)
  from h1 h2 g f show ?thesis by simp
qed

text \<open>
  C10. A relation of type \<open>k\<close> that points at the entity \<open>X\<close>, with no relation of
  type \<open>k\<close> at \<open>X\<close> stored after it, makes \<^verbatim>\<open>GetFourCauses\<close> report \<open>X\<close> itself
  as the cause of type \<open>k\<close> of \<open>X\<close>: the map takes the \<^verbatim>\<open>to\<close> end of the relation.
\<close>

theorem target_is_own_cause:
  assumes "causal_relations db = earlier @ e # later"
    and "ToEntity e = X" and "CauseType e = k"
    and "\<forall>r\<in>set later. (FromEntity r = X \<or> ToEntity r = X) \<longrightarrow> CauseType r \<noteq> k"
  shows "GetFourCauses X db k = Some X"
proof -
  let ?touch = "\<lambda>r. FromEntity r = X \<or> ToEntity r = X"
  from assms(4) have "find (\<lambda>r. CauseType r = k) (rev (filter ?touch later)) = None"
    by (auto simp: find_None_iff)
  with assms(1-3) show ?thesis
    by (simp add: GetFourCauses_find find_app)
qed

theorem target_is_own_cause_witness:
  "causal_relations (empty_db\<lparr>causal_relations :=
       [NewCausalRelation ''efficient'' ''W'' ''X'' ''c1'' 1,
        NewCausalRelation ''final'' ''X'' ''V'' ''c2'' 2,
        NewCausalRelation ''final'' ''W'' ''X'' ''c3'' 3,
        NewCausalRelation ''efficient'' ''X'' ''U'' ''c4'' 4,
        NewCausalRelation ''final'' ''W'' ''Q'' ''c5'' 5]\<rparr>)
     = [NewCausalRelation ''efficient'' ''W'' ''X'' ''c1'' 1,
        NewCausalRelation ''final'' ''X'' ''V'' ''c2'' 2]
       @ NewCausalRelation ''final'' ''W'' ''X'' ''c3'' 3
       # [NewCausalRelation ''efficient'' ''X'' ''U'' ''c4'' 4,
          NewCausalRelation ''final'' ''W'' ''Q'' ''c5'' 5]
   \<and> ToEntity (NewCausalRelation ''final'' ''W'' ''X'' ''c3'' 3) = ''X''
   \<and> CauseType (NewCausalRelation ''final'' ''W'' ''X'' ''c3'' 3) = ''final''
   \<and> filter (\<lambda>r. (FromEntity r = ''X'' \<or> ToEntity r = ''X'') \<and> CauseType r = ''final'')
         [NewCausalRelation ''efficient'' ''X'' ''U'' ''c4'' 4,
          NewCausalRelation ''final'' ''W'' ''Q'' ''c5'' 5] = []
   \<and> GetFourCauses ''X'' (empty_db\<lparr>causal_relations :=
       [NewCausalRelation ''efficient'' ''W'' ''X'' ''c1'' 1,
        NewCausalRelation ''final'' ''X'' ''V'' ''c2'' 2,
        NewCausalRelation ''final'' ''W'' ''X'' ''c3'' 3,
        NewCausalRelation ''efficient'' ''X'' ''U'' ''c4'' 4,
        NewCausalRelation ''final'' ''W'' ''Q'' ''c5'' 5]\<rparr>) ''final'' = Some ''X''"
proof -
  let ?e = "NewCausalRelation ''final'' ''W'' ''X'' ''c3'' 3"
  let ?earlier = "[NewCausalRelation ''efficient'' ''W'' ''X'' ''c1'' 1,
        NewCausalRelation ''final'' ''X'' ''V'' ''c2'' 2]"
  let ?later = "[NewCausalRelation ''efficient'' ''X'' ''U'' ''c4'' 4,
          NewCausalRelation ''final'' ''W'' ''Q'' ''c5'' 5]"
  let ?db = "empty_db\<lparr>causal_relations := ?earlier @ ?e # ?later\<rparr>"
  have h1: "causal_relations ?db = ?earlier @ ?e # ?later" by simp
  have h2: "ToEntity ?e = ''X''" by (simp add: NewCausalRelation_def)
  have h3: "CauseType ?e = ''final''" by (simp add: NewCausalRelation_def)
  have h4: "\<forall>r\<in>set ?later. (FromEntity r = ''X'' \<or> ToEntity r = ''X'') \<longrightarrow> CauseType r \<noteq> ''final''"
    by (simp add: NewCausalRelation_def)
  have h5: "filter (\<lambda>r. (FromEntity r = ''X'' \<or> ToEntity r = ''X'') \<and> CauseType r = ''final'') ?later = []"
    by (simp add: NewCausalRelation_def)
  from target_is_own_cause [OF h1 h2 h3 h4] h2 h3 h5 show ?thesis by simp
qed

lemma modes_of_actualities:
  "modes_of (db\<lparr>actualities := as\<rparr>) sid name = modes_of db sid name"
  by (simp add: modes_of_def)

lemma checkSingleCondition_actualities:
  "checkSingleCondition rt (db\<lparr>actualities := as\<rparr>) sid c = checkSingleCondition rt db sid c"
  by (simp add: checkSingleCondition_def checkAttributeCondition_def checkModeCondition_def
        modes_of_actualities split: sum.splits)

lemma CheckConditions_actualities:
  "CheckConditions rt pid (db\<lparr>actualities := as\<rparr>) =
     (fst (CheckConditions rt pid db), db\<lparr>actualities := as\<rparr>)"
  by (simp add: CheckConditions_def find_potentiality_def check_loop_eq
        checkSingleCondition_actualities split: option.splits)

lemma ActualizePotentiality_Inr:
  assumes "ActualizePotentiality rt pid description uuid now db = (Inr a, db1)"
  shows "\<exists>unmet p. CheckConditions rt pid db = (Inr (True, unmet), db)
           \<and> find_potentiality pid db = Some p
           \<and> a = NewActuality description (Potentiality_SubstanceID p) pid uuid now
           \<and> uuid \<notin> set (map Actuality_ID (actualities db))
           \<and> db1 = db\<lparr>actualities := actualities db @ [a]\<rparr>"
proof -
  obtain res db0 where c: "CheckConditions rt pid db = (res, db0)"
    by (cases "CheckConditions rt pid db")
  with CheckConditions_db [of rt pid db] have db0: "db0 = db" by simp
  from assms c db0 show ?thesis
    by (auto simp: ActualizePotentiality_def Create_actuality_def Let_def NewActuality_def
             split: sum.splits option.splits if_splits prod.splits)
qed

text \<open>
  C8. After a successful \<^verbatim>\<open>ActualizePotentiality\<close> of a potentiality, a second call
  for the same potentiality on the store the first one left, with a newly generated
  identifier, succeeds as well: the store then holds both actualities, they are different
  records, and both refer to that potentiality and its substance.
\<close>

theorem actualize_twice:
  assumes "ActualizePotentiality rt pid d1 u1 t1 db = (Inr a1, db1)"
    and "u2 \<notin> set (map Actuality_ID (actualities db1))"
  shows "\<exists>a2 db2.
           ActualizePotentiality rt pid d2 u2 t2 db1 = (Inr a2, db2)
         \<and> a2 \<noteq> a1
         \<and> actualities db2 = actualities db @ [a1, a2]
         \<and> Actuality_PotentialityID a1 = pid \<and> Actuality_PotentialityID a2 = pid
         \<and> Actuality_SubstanceID a2 = Actuality_SubstanceID a1"
proof -
  from ActualizePotentiality_Inr [OF assms(1)] obtain unmet p where
    c: "CheckConditions rt pid db = (Inr (True, unmet), db)"
    and f: "find_potentiality pid db = Some p"
    and a1: "a1 = NewActuality d1 (Potentiality_SubstanceID p) pid u1 t1"
    and db1: "db1 = db\<lparr>actualities := actualities db @ [a1]\<rparr>"
    by blast
  let ?a2 = "NewActuality d2 (Potentiality_SubstanceID p) pid u2 t2"
  from c db1 have c1: "CheckConditions rt pid db1 = (Inr (True, unmet), db1)"
    by (simp add: CheckConditions_actualities)
  from f db1 have f1: "find_potentiality pid db1 = Some p"
    by (simp add: find_potentiality_def)
  from c1 f1 assms(2)
  have "ActualizePotentiality rt pid d2 u2 t2 db1 = (Inr ?a2, db1\<lparr>actualities := actualities db1 @ [?a2]\<rparr>)"
    by (simp add: ActualizePotentiality_def Create_actuality_def Let_def NewActuality_def)
  moreover from assms(2) db1 a1 have "u2 \<noteq> u1" by (auto simp: NewActuality_def)
  then have "?a2 \<noteq> a1" by (auto simp: a1 NewActuality_def)
  moreover from db1 have "actualities (db1\<lparr>actualities := actualities db1 @ [?a2]\<rparr>) = actualities db @ [a1, ?a2]"
    by simp
  moreover have "Actuality_PotentialityID a1 = pid" "Actuality_PotentialityID ?a2 = pid"
    "Actuality_SubstanceID ?a2 = Actuality_SubstanceID a1"
    by (simp_all add: a1 NewActuality_def)
  ultimately show ?thesis by blast
qed

theorem actualize_twice_witness:
  "ActualizePotentiality test_runtime ''p1'' ''Tree successfully grew green leaves'' ''x1'' 5
      (tree_db color_is_green [color_mode ''m1'' ''green''])
     = (Inr (NewActuality ''Tree successfully grew green leaves'' ''s1'' ''p1'' ''x1'' 5),
        (tree_db color_is_green [color_mode ''m1'' ''green''])
          \<lparr>actualities := [NewActuality ''Tree successfully grew green leaves'' ''s1'' ''p1'' ''x1'' 5]\<rparr>)
   \<and> ''x2'' \<notin> set (map Actuality_ID (actualities ((tree_db color_is_green [color_mode ''m1'' ''green''])
          \<lparr>actualities := [NewActuality ''Tree successfully grew green leaves'' ''s1'' ''p1'' ''x1'' 5]\<rparr>)))
   \<and> ActualizePotentiality test_runtime ''p1'' ''Tree grew leaves again'' ''x2'' 6
        ((tree_db color_is_green [color_mode ''m1'' ''green''])
          \<lparr>actualities := [NewActuality ''Tree successfully grew green leaves'' ''s1'' ''p1'' ''x1'' 5]\<rparr>)
     = (Inr (NewActuality ''Tree grew leaves again'' ''s1'' ''p1'' ''x2'' 6),
        (tree_db color_is_green [color_mode ''m1'' ''green''])
          \<lparr>actualities := [NewActuality ''Tree successfully grew green leaves'' ''s1'' ''p1'' ''x1'' 5,
                           NewActuality ''Tree grew leaves again'' ''s1'' ''p1'' ''x2'' 6]\<rparr>)"
proof -
  let ?db = "tree_db color_is_green [color_mode ''m1'' ''green'']"
  let ?a1 = "NewActuality ''Tree successfully grew green leaves'' ''s1'' ''p1'' ''x1'' 5"
  let ?a2 = "NewActuality ''Tree grew leaves again'' ''s1'' ''p1'' ''x2'' 6"
  have h1: "ActualizePotentiality test_runtime ''p1'' ''Tree successfully grew green leaves'' ''x1'' 5 ?db
     = (Inr ?a1, ?db\<lparr>actualities := [?a1]\<rparr>)"
    by (simp add: engine_defs test_defs Let_def)
  have h2: "''x2'' \<notin> set (map Actuality_ID (actualities (?db\<lparr>actualities := [?a1]\<rparr>)))"
    by (simp add: NewActuality_def)
  from actualize_twice [OF h1 h2, of "''Tree grew leaves again''" 6] obtain a2 db2 where
    r: "ActualizePotentiality test_runtime ''p1'' ''Tree grew leaves again'' ''x2'' 6 (?db\<lparr>actualities := [?a1]\<rparr>)
          = (Inr a2, db2)"
    by blast
  have e: "ActualizePotentiality test_runtime ''p1'' ''Tree grew leaves again'' ''x2'' 6 (?db\<lparr>actualities := [?a1]\<rparr>)
     = (Inr ?a2, ?db\<lparr>actualities := [?a1, ?a2]\<rparr>)"
    by (simp add: engine_defs test_defs Let_def)
  from h1 h2 r e show ?thesis by simp
qed

end
